theory Spec2Isabelle
  imports Main
begin

section \<open>Values, queries and the engine handle\<close>

text \<open>
  A JavaScript \<^verbatim>\<open>number\<close> as far as the client looks at it: it is only tested for
  truthiness and handed to the engine. Integer-valued numbers and \<^verbatim>\<open>NaN\<close> are
  represented; \<^verbatim>\<open>0\<close> and \<^verbatim>\<open>-0\<close> are the same value here.
\<close>

datatype number = Finite int | NaN

datatype jsval =
    JUndefined
  | JNull
  | JBool bool
  | JNum number
  | JStr string
  | JDate int
  | JArr "jsval list"
  | JObj "(string \<times> jsval) list"

text \<open>\<^verbatim>\<open>type Task = Record<string, unknown>\<close>; a result row is an object of columns.\<close>

type_synonym Task = "(string \<times> jsval) list"
type_synonym row = "(string \<times> jsval) list"

text \<open>Property access \<^verbatim>\<open>o.k\<close> on an object: \<^verbatim>\<open>undefined\<close> when the key is absent.\<close>

definition getprop :: "(string \<times> jsval) list \<Rightarrow> string \<Rightarrow> jsval" where
  "getprop obj k = (case map_of obj k of None \<Rightarrow> JUndefined | Some v \<Rightarrow> v)"

text \<open>JavaScript truthiness, as used by \<^verbatim>\<open>delay ? a : b\<close>.\<close>

fun truthy :: "jsval \<Rightarrow> bool" where
  "truthy JUndefined = False"
| "truthy JNull = False"
| "truthy (JBool b) = b"
| "truthy (JNum n) = (n \<noteq> Finite 0 \<and> n \<noteq> NaN)"
| "truthy (JStr s) = (s \<noteq> [])"
| "truthy (JDate t) = True"
| "truthy (JArr xs) = True"
| "truthy (JObj kvs) = True"

text \<open>The optional parameter \<^verbatim>\<open>delay?: number | Date\<close>; \<open>None\<close> is an omitted argument.\<close>

datatype delay = DelayNumber number | DelayDate int

fun delay_val :: "delay option \<Rightarrow> jsval" where
  "delay_val None = JUndefined"
| "delay_val (Some (DelayNumber n)) = JNum n"
| "delay_val (Some (DelayDate t)) = JDate t"

text \<open>
  A tagged-template query: the literal pieces and the bound parameters in the order they
  are written. A nested \<^verbatim>\<open>Prisma.sql\<close> fragment is spliced in place; empty literal
  pieces are left out.
\<close>

datatype frag = Text string | Param jsval

type_synonym sql = "frag list"

fun sql_params :: "sql \<Rightarrow> jsval list" where
  "sql_params [] = []"
| "sql_params (Text t # fs) = sql_params fs"
| "sql_params (Param v # fs) = v # sql_params fs"

fun sql_text :: "sql \<Rightarrow> string" where
  "sql_text [] = []"
| "sql_text (Text t # fs) = t @ sql_text fs"
| "sql_text (Param v # fs) = ''?'' @ sql_text fs"

text \<open>A thrown value: the class name of the error object and its message.\<close>

datatype js_error = JsError (error_name: string) (error_message: string)

definition new_Error :: "string \<Rightarrow> js_error" where
  "new_Error msg = JsError ''Error'' msg"

text \<open>
  The handle \<^verbatim>\<open>Prisma.TransactionClient\<close>: the two raw-query entry points of the
  external engine, acting on the engine's state \<open>'s\<close>. A rejected promise is \<open>Inl\<close>.
\<close>

record 's TransactionClient =
  queryRaw :: "sql \<Rightarrow> 's \<Rightarrow> (js_error + row list) \<times> 's"
  executeRaw :: "sql \<Rightarrow> 's \<Rightarrow> (js_error + nat) \<times> 's"

text \<open>
  What a run of client code can observe: the engine's state and, in order, every round
  trip issued through a handle.
\<close>

datatype entry_point = QueryRaw | ExecuteRaw

record 's world =
  db :: 's
  calls :: "(entry_point \<times> sql) list"

type_synonym 's prog = "'s world \<Rightarrow> (js_error + jsval) \<times> 's world"

text \<open>\<^verbatim>\<open>await tx.$queryRaw`...`\<close> and \<^verbatim>\<open>await tx.$executeRaw`...`\<close>.\<close>

definition dollar_queryRaw ::
  "('s, 'z) TransactionClient_scheme \<Rightarrow> sql \<Rightarrow> 's world \<Rightarrow> (js_error + row list) \<times> 's world" where
  "dollar_queryRaw tx q w =
     (case queryRaw tx q (db w) of
        (r, s') \<Rightarrow> (r, w\<lparr>db := s', calls := calls w @ [(QueryRaw, q)]\<rparr>))"

definition dollar_executeRaw ::
  "('s, 'z) TransactionClient_scheme \<Rightarrow> sql \<Rightarrow> 's world \<Rightarrow> (js_error + nat) \<times> 's world" where
  "dollar_executeRaw tx q w =
     (case executeRaw tx q (db w) of
        (r, s') \<Rightarrow> (r, w\<lparr>db := s', calls := calls w @ [(ExecuteRaw, q)]\<rparr>))"

text \<open>
  The shape shared by the single-row functions of \<^verbatim>\<open>pgmq.ts\<close>:
  \<^verbatim>\<open>const firstResult = result[0]; if (!firstResult) throw new Error(msg); return f(firstResult)\<close>.
  A row is an object, hence truthy: \<^verbatim>\<open>!firstResult\<close> holds exactly for the empty result.
\<close>

definition first_or_throw ::
  "string \<Rightarrow> (row \<Rightarrow> jsval) \<Rightarrow> (js_error + row list) \<times> 's world \<Rightarrow> (js_error + jsval) \<times> 's world" where
  "first_or_throw msg f res =
     (case res of
        (Inl e, w') \<Rightarrow> (Inl e, w')
      | (Inr result, w') \<Rightarrow>
          (case result of
             [] \<Rightarrow> (Inl (new_Error msg), w')
           | firstResult # _ \<Rightarrow> (Inr (f firstResult), w')))"

text \<open>The shape of the functions that return every row: \<^verbatim>\<open>return result.map(f)\<close>.\<close>

definition all_rows ::
  "(row \<Rightarrow> jsval) \<Rightarrow> (js_error + row list) \<times> 's world \<Rightarrow> (js_error + jsval) \<times> 's world" where
  "all_rows f res =
     (case res of
        (Inl e, w') \<Rightarrow> (Inl e, w')
      | (Inr result, w') \<Rightarrow> (Inr (JArr (map f result)), w'))"

text \<open>The shape of the \<^verbatim>\<open>Promise<void>\<close> functions: the row count is dropped.\<close>

definition returns_void :: "(js_error + nat) \<times> 's world \<Rightarrow> (js_error + jsval) \<times> 's world" where
  "returns_void res =
     (case res of
        (Inl e, w') \<Rightarrow> (Inl e, w')
      | (Inr n, w') \<Rightarrow> (Inr JUndefined, w'))"

text \<open>A parameter with a default value: \<^verbatim>\<open>qty: number = 1\<close>.\<close>

definition dflt :: "'a \<Rightarrow> 'a option \<Rightarrow> 'a" where
  "dflt d x = (case x of None \<Rightarrow> d | Some v \<Rightarrow> v)"

section \<open>Operation layer (\<^verbatim>\<open>pgmq.ts\<close>)\<close>

definition delayRepr :: "delay option \<Rightarrow> sql" where
  "delayRepr delay =
     (case delay of
        Some (DelayNumber n) \<Rightarrow> [Param (JNum n), Text ''::integer'']
      | _ \<Rightarrow> [Param (delay_val delay)])"

definition delaySql :: "delay option \<Rightarrow> sql" where
  "delaySql delay = (if truthy (delay_val delay) then Text '', '' # delayRepr delay else [])"

definition send_sql :: "string \<Rightarrow> Task \<Rightarrow> delay option \<Rightarrow> sql" where
  "send_sql queueName msg delay =
     [Text ''SELECT pgmq.send('', Param (JStr queueName), Text '', '', Param (JObj msg)]
       @ delaySql delay @ [Text '')'']"

definition send ::
  "('s, 'z) TransactionClient_scheme \<Rightarrow> string \<Rightarrow> Task \<Rightarrow> delay option \<Rightarrow> 's prog" where
  "send tx queueName msg delay w =
     first_or_throw ''No result returned from pgmq.send'' (\<lambda>firstResult. getprop firstResult ''send'')
       (dollar_queryRaw tx (send_sql queueName msg delay) w)"

definition sendBatch_sql :: "string \<Rightarrow> Task list \<Rightarrow> delay option \<Rightarrow> sql" where
  "sendBatch_sql queueName msgs delay =
     [Text ''SELECT pgmq.send_batch('', Param (JStr queueName), Text '', '', Param (JArr (map JObj msgs))]
       @ delaySql delay @ [Text '')'']"

definition sendBatch ::
  "('s, 'z) TransactionClient_scheme \<Rightarrow> string \<Rightarrow> Task list \<Rightarrow> delay option \<Rightarrow> 's prog" where
  "sendBatch tx queueName msgs delay w =
     all_rows (\<lambda>a. getprop a ''send_batch'')
       (dollar_queryRaw tx (sendBatch_sql queueName msgs delay) w)"

definition read_sql :: "string \<Rightarrow> number \<Rightarrow> number \<Rightarrow> Task \<Rightarrow> sql" where
  "read_sql queueName vt qty conditional =
     [Text ''SELECT * FROM pgmq.read('', Param (JStr queueName), Text '', '', Param (JNum vt),
      Text ''::integer, '', Param (JNum qty), Text ''::integer, '', Param (JObj conditional), Text '')'']"

definition read ::
  "('s, 'z) TransactionClient_scheme \<Rightarrow> string \<Rightarrow> number \<Rightarrow> number option \<Rightarrow> Task option \<Rightarrow> 's prog" where
  "read tx queueName vt qty conditional w =
     all_rows JObj
       (dollar_queryRaw tx (read_sql queueName vt (dflt (Finite 1) qty) (dflt [] conditional)) w)"

definition readWithPoll_sql ::
  "string \<Rightarrow> number \<Rightarrow> number \<Rightarrow> number \<Rightarrow> number \<Rightarrow> Task \<Rightarrow> sql" where
  "readWithPoll_sql queueName vt qty maxPollSeconds pollIntervalMs conditional =
     [Text ''SELECT * FROM pgmq.read_with_poll('', Param (JStr queueName), Text '', '', Param (JNum vt),
      Text ''::integer, '', Param (JNum qty), Text ''::integer, '', Param (JNum maxPollSeconds),
      Text ''::integer, '', Param (JNum pollIntervalMs), Text ''::integer, '', Param (JObj conditional),
      Text '')'']"

definition readWithPoll ::
  "('s, 'z) TransactionClient_scheme \<Rightarrow> string \<Rightarrow> number \<Rightarrow> number option \<Rightarrow> number option \<Rightarrow>
     number option \<Rightarrow> Task option \<Rightarrow> 's prog" where
  "readWithPoll tx queueName vt qty maxPollSeconds pollIntervalMs conditional w =
     all_rows JObj
       (dollar_queryRaw tx
          (readWithPoll_sql queueName vt (dflt (Finite 1) qty) (dflt (Finite 5) maxPollSeconds)
             (dflt (Finite 100) pollIntervalMs) (dflt [] conditional)) w)"

definition pop_sql :: "string \<Rightarrow> sql" where
  "pop_sql queueName = [Text ''SELECT * FROM pgmq.pop('', Param (JStr queueName), Text '')'']"

definition pop :: "('s, 'z) TransactionClient_scheme \<Rightarrow> string \<Rightarrow> 's prog" where
  "pop tx queueName w = all_rows JObj (dollar_queryRaw tx (pop_sql queueName) w)"

definition deleteMessage_sql :: "string \<Rightarrow> number \<Rightarrow> sql" where
  "deleteMessage_sql queueName msgId =
     [Text ''SELECT pgmq.delete('', Param (JStr queueName), Text '', '', Param (JNum msgId),
      Text ''::integer)'']"

definition deleteMessage :: "('s, 'z) TransactionClient_scheme \<Rightarrow> string \<Rightarrow> number \<Rightarrow> 's prog" where
  "deleteMessage tx queueName msgId w =
     first_or_throw ''No result returned from pgmq.delete'' (\<lambda>firstResult. getprop firstResult ''delete'')
       (dollar_queryRaw tx (deleteMessage_sql queueName msgId) w)"

definition deleteBatch_sql :: "string \<Rightarrow> number list \<Rightarrow> sql" where
  "deleteBatch_sql queueName msgIds =
     [Text ''SELECT pgmq.delete('', Param (JStr queueName), Text '', '', Param (JArr (map JNum msgIds)),
      Text ''::integer[])'']"

definition deleteBatch :: "('s, 'z) TransactionClient_scheme \<Rightarrow> string \<Rightarrow> number list \<Rightarrow> 's prog" where
  "deleteBatch tx queueName msgIds w =
     all_rows (\<lambda>a. getprop a ''delete'') (dollar_queryRaw tx (deleteBatch_sql queueName msgIds) w)"

definition purgeQueue_sql :: "string \<Rightarrow> sql" where
  "purgeQueue_sql queueName = [Text ''SELECT pgmq.purge_queue('', Param (JStr queueName), Text '')'']"

definition purgeQueue :: "('s, 'z) TransactionClient_scheme \<Rightarrow> string \<Rightarrow> 's prog" where
  "purgeQueue tx queueName w =
     first_or_throw ''No result returned from pgmq.purge_queue''
       (\<lambda>firstResult. getprop firstResult ''purge_queue'')
       (dollar_queryRaw tx (purgeQueue_sql queueName) w)"

definition archive_sql :: "string \<Rightarrow> number \<Rightarrow> sql" where
  "archive_sql queueName msgId =
     [Text ''SELECT pgmq.archive('', Param (JStr queueName), Text '', '', Param (JNum msgId),
      Text ''::integer)'']"

definition archive :: "('s, 'z) TransactionClient_scheme \<Rightarrow> string \<Rightarrow> number \<Rightarrow> 's prog" where
  "archive tx queueName msgId w =
     first_or_throw ''No result returned from pgmq.archive'' (\<lambda>firstResult. getprop firstResult ''archive'')
       (dollar_queryRaw tx (archive_sql queueName msgId) w)"

definition archiveBatch_sql :: "string \<Rightarrow> number list \<Rightarrow> sql" where
  "archiveBatch_sql queueName msgIds =
     [Text ''SELECT pgmq.archive('', Param (JStr queueName), Text '', '', Param (JArr (map JNum msgIds)),
      Text ''::integer[])'']"

definition archiveBatch :: "('s, 'z) TransactionClient_scheme \<Rightarrow> string \<Rightarrow> number list \<Rightarrow> 's prog" where
  "archiveBatch tx queueName msgIds w =
     all_rows (\<lambda>a. getprop a ''archive'') (dollar_queryRaw tx (archiveBatch_sql queueName msgIds) w)"

definition createQueue_sql :: "string \<Rightarrow> sql" where
  "createQueue_sql queueName = [Text ''SELECT pgmq.create('', Param (JStr queueName), Text '')'']"

definition createQueue :: "('s, 'z) TransactionClient_scheme \<Rightarrow> string \<Rightarrow> 's prog" where
  "createQueue tx queueName w = returns_void (dollar_executeRaw tx (createQueue_sql queueName) w)"

definition createPartitionedQueue_sql :: "string \<Rightarrow> string \<Rightarrow> string \<Rightarrow> sql" where
  "createPartitionedQueue_sql queueName partitionInterval retentionInterval =
     [Text ''SELECT pgmq.create_partitioned('', Param (JStr queueName), Text '', '',
      Param (JStr partitionInterval), Text '', '', Param (JStr retentionInterval), Text '')'']"

definition createPartitionedQueue ::
  "('s, 'z) TransactionClient_scheme \<Rightarrow> string \<Rightarrow> string option \<Rightarrow> string option \<Rightarrow> 's prog" where
  "createPartitionedQueue tx queueName partitionInterval retentionInterval w =
     returns_void
       (dollar_executeRaw tx
          (createPartitionedQueue_sql queueName (dflt ''10000'' partitionInterval)
             (dflt ''100000'' retentionInterval)) w)"

definition createUnloggedQueue_sql :: "string \<Rightarrow> sql" where
  "createUnloggedQueue_sql queueName =
     [Text ''SELECT pgmq.create_unlogged('', Param (JStr queueName), Text '')'']"

definition createUnloggedQueue :: "('s, 'z) TransactionClient_scheme \<Rightarrow> string \<Rightarrow> 's prog" where
  "createUnloggedQueue tx queueName w =
     returns_void (dollar_executeRaw tx (createUnloggedQueue_sql queueName) w)"

definition detachArchive_sql :: "string \<Rightarrow> sql" where
  "detachArchive_sql queueName =
     [Text ''SELECT pgmq.detach_archive('', Param (JStr queueName), Text '')'']"

definition detachArchive :: "('s, 'z) TransactionClient_scheme \<Rightarrow> string \<Rightarrow> 's prog" where
  "detachArchive tx queueName w = returns_void (dollar_executeRaw tx (detachArchive_sql queueName) w)"

definition dropQueue_sql :: "string \<Rightarrow> sql" where
  "dropQueue_sql queueName = [Text ''SELECT pgmq.drop_queue('', Param (JStr queueName), Text '')'']"

definition dropQueue :: "('s, 'z) TransactionClient_scheme \<Rightarrow> string \<Rightarrow> 's prog" where
  "dropQueue tx queueName w =
     first_or_throw ''No result returned from pgmq.drop_queue''
       (\<lambda>firstResult. getprop firstResult ''drop_queue'')
       (dollar_queryRaw tx (dropQueue_sql queueName) w)"

definition setVt_sql :: "string \<Rightarrow> number \<Rightarrow> number \<Rightarrow> sql" where
  "setVt_sql queueName msgId vtOffset =
     [Text ''SELECT * FROM pgmq.set_vt('', Param (JStr queueName), Text '', '', Param (JNum msgId),
      Text ''::integer, '', Param (JNum vtOffset), Text ''::integer)'']"

definition setVt ::
  "('s, 'z) TransactionClient_scheme \<Rightarrow> string \<Rightarrow> number \<Rightarrow> number \<Rightarrow> 's prog" where
  "setVt tx queueName msgId vtOffset w =
     first_or_throw ''No result returned from pgmq.set_vt'' JObj
       (dollar_queryRaw tx (setVt_sql queueName msgId vtOffset) w)"

definition listQueues_sql :: sql where
  "listQueues_sql = [Text ''SELECT * FROM pgmq.list_queues()'']"

definition listQueues :: "('s, 'z) TransactionClient_scheme \<Rightarrow> 's prog" where
  "listQueues tx w = all_rows JObj (dollar_queryRaw tx listQueues_sql w)"

definition metrics_sql :: "string \<Rightarrow> sql" where
  "metrics_sql queueName = [Text ''SELECT * FROM pgmq.metrics('', Param (JStr queueName), Text '')'']"

definition metrics :: "('s, 'z) TransactionClient_scheme \<Rightarrow> string \<Rightarrow> 's prog" where
  "metrics tx queueName w =
     first_or_throw ''No result returned from pgmq.metrics'' JObj
       (dollar_queryRaw tx (metrics_sql queueName) w)"

definition metricsAll_sql :: sql where
  "metricsAll_sql = [Text ''SELECT * FROM pgmq.metrics_all()'']"

definition metricsAll :: "('s, 'z) TransactionClient_scheme \<Rightarrow> 's prog" where
  "metricsAll tx w = all_rows JObj (dollar_queryRaw tx metricsAll_sql w)"

section \<open>Clients (\<^verbatim>\<open>client.ts\<close>)\<close>

text \<open>
  \<^verbatim>\<open>PrismaClient\<close>: a handle that can also open a transaction. \<^verbatim>\<open>$transaction(fn)\<close>
  belongs to the external library and is a parameter here: it receives the block, which
  takes the handle of the scope and returns a promise.
\<close>

record 's PrismaClient = "'s TransactionClient" +
  transaction :: "('s TransactionClient \<Rightarrow> 's prog) \<Rightarrow> 's prog"

subsection \<open>\<^verbatim>\<open>class PGMQTransactionClient\<close>\<close>

datatype 's PGMQTransactionClient = PGMQTransactionClient (the_tx: "'s TransactionClient")

definition PGMQTransactionClient_send ::
  "'s PGMQTransactionClient \<Rightarrow> string \<Rightarrow> Task \<Rightarrow> delay option \<Rightarrow> 's prog" where
  "PGMQTransactionClient_send this queueName msg delay =
     send (the_tx this) queueName msg delay"

definition PGMQTransactionClient_sendBatch ::
  "'s PGMQTransactionClient \<Rightarrow> string \<Rightarrow> Task list \<Rightarrow> delay option \<Rightarrow> 's prog" where
  "PGMQTransactionClient_sendBatch this queueName msgs delay =
     sendBatch (the_tx this) queueName msgs delay"

definition PGMQTransactionClient_read ::
  "'s PGMQTransactionClient \<Rightarrow> string \<Rightarrow> number \<Rightarrow> number option \<Rightarrow> Task option \<Rightarrow> 's prog" where
  "PGMQTransactionClient_read this queueName vt qty conditional =
     read (the_tx this) queueName vt (Some (dflt (Finite 1) qty)) (Some (dflt [] conditional))"

definition PGMQTransactionClient_readWithPoll ::
  "'s PGMQTransactionClient \<Rightarrow> string \<Rightarrow> number \<Rightarrow> number option \<Rightarrow> number option \<Rightarrow>
     number option \<Rightarrow> Task option \<Rightarrow> 's prog" where
  "PGMQTransactionClient_readWithPoll this queueName vt qty maxPollSeconds pollIntervalMs conditional =
     readWithPoll (the_tx this) queueName vt (Some (dflt (Finite 1) qty))
       (Some (dflt (Finite 5) maxPollSeconds)) (Some (dflt (Finite 100) pollIntervalMs))
       (Some (dflt [] conditional))"

definition PGMQTransactionClient_pop ::
  "'s PGMQTransactionClient \<Rightarrow> string \<Rightarrow> 's prog" where
  "PGMQTransactionClient_pop this queueName =
     pop (the_tx this) queueName"

definition PGMQTransactionClient_deleteMessage ::
  "'s PGMQTransactionClient \<Rightarrow> string \<Rightarrow> number \<Rightarrow> 's prog" where
  "PGMQTransactionClient_deleteMessage this queueName msgId =
     deleteMessage (the_tx this) queueName msgId"

definition PGMQTransactionClient_deleteBatch ::
  "'s PGMQTransactionClient \<Rightarrow> string \<Rightarrow> number list \<Rightarrow> 's prog" where
  "PGMQTransactionClient_deleteBatch this queueName msgIds =
     deleteBatch (the_tx this) queueName msgIds"

definition PGMQTransactionClient_purgeQueue ::
  "'s PGMQTransactionClient \<Rightarrow> string \<Rightarrow> 's prog" where
  "PGMQTransactionClient_purgeQueue this queueName =
     purgeQueue (the_tx this) queueName"

definition PGMQTransactionClient_archive ::
  "'s PGMQTransactionClient \<Rightarrow> string \<Rightarrow> number \<Rightarrow> 's prog" where
  "PGMQTransactionClient_archive this queueName msgId =
     archive (the_tx this) queueName msgId"

definition PGMQTransactionClient_archiveBatch ::
  "'s PGMQTransactionClient \<Rightarrow> string \<Rightarrow> number list \<Rightarrow> 's prog" where
  "PGMQTransactionClient_archiveBatch this queueName msgIds =
     archiveBatch (the_tx this) queueName msgIds"

definition PGMQTransactionClient_createQueue ::
  "'s PGMQTransactionClient \<Rightarrow> string \<Rightarrow> 's prog" where
  "PGMQTransactionClient_createQueue this queueName =
     createQueue (the_tx this) queueName"

definition PGMQTransactionClient_createPartitionedQueue ::
  "'s PGMQTransactionClient \<Rightarrow> string \<Rightarrow> string option \<Rightarrow> string option \<Rightarrow> 's prog" where
  "PGMQTransactionClient_createPartitionedQueue this queueName partitionInterval retentionInterval =
     createPartitionedQueue (the_tx this) queueName
       (Some (dflt ''10000'' partitionInterval)) (Some (dflt ''100000'' retentionInterval))"

definition PGMQTransactionClient_createUnloggedQueue ::
  "'s PGMQTransactionClient \<Rightarrow> string \<Rightarrow> 's prog" where
  "PGMQTransactionClient_createUnloggedQueue this queueName =
     createUnloggedQueue (the_tx this) queueName"

definition PGMQTransactionClient_detachArchive ::
  "'s PGMQTransactionClient \<Rightarrow> string \<Rightarrow> 's prog" where
  "PGMQTransactionClient_detachArchive this queueName =
     detachArchive (the_tx this) queueName"

definition PGMQTransactionClient_dropQueue ::
  "'s PGMQTransactionClient \<Rightarrow> string \<Rightarrow> 's prog" where
  "PGMQTransactionClient_dropQueue this queueName =
     dropQueue (the_tx this) queueName"

definition PGMQTransactionClient_setVt ::
  "'s PGMQTransactionClient \<Rightarrow> string \<Rightarrow> number \<Rightarrow> number \<Rightarrow> 's prog" where
  "PGMQTransactionClient_setVt this queueName msgId vtOffset =
     setVt (the_tx this) queueName msgId vtOffset"

definition PGMQTransactionClient_listQueues ::
  "'s PGMQTransactionClient \<Rightarrow> 's prog" where
  "PGMQTransactionClient_listQueues this =
     listQueues (the_tx this)"

definition PGMQTransactionClient_metrics ::
  "'s PGMQTransactionClient \<Rightarrow> string \<Rightarrow> 's prog" where
  "PGMQTransactionClient_metrics this queueName =
     metrics (the_tx this) queueName"

definition PGMQTransactionClient_metricsAll ::
  "'s PGMQTransactionClient \<Rightarrow> 's prog" where
  "PGMQTransactionClient_metricsAll this =
     metricsAll (the_tx this)"

subsection \<open>\<^verbatim>\<open>class PrismaPGMQ\<close>\<close>

datatype 's PrismaPGMQ = PrismaPGMQ (the_prisma: "'s PrismaClient")

definition PrismaPGMQ_transaction ::
  "'s PrismaPGMQ \<Rightarrow> ('s PGMQTransactionClient \<Rightarrow> 's prog) \<Rightarrow> 's prog" where
  "PrismaPGMQ_transaction this callback =
     transaction (the_prisma this)
       (\<lambda>tx. let pgmqClient = PGMQTransactionClient tx in callback pgmqClient)"

definition PrismaPGMQ_send ::
  "'s PrismaPGMQ \<Rightarrow> string \<Rightarrow> Task \<Rightarrow> delay option \<Rightarrow> 's prog" where
  "PrismaPGMQ_send this queueName msg delay =
     PrismaPGMQ_transaction this (\<lambda>tx.
       PGMQTransactionClient_send tx queueName msg delay)"

definition PrismaPGMQ_sendBatch ::
  "'s PrismaPGMQ \<Rightarrow> string \<Rightarrow> Task list \<Rightarrow> delay option \<Rightarrow> 's prog" where
  "PrismaPGMQ_sendBatch this queueName msgs delay =
     PrismaPGMQ_transaction this (\<lambda>tx.
       PGMQTransactionClient_sendBatch tx queueName msgs delay)"

definition PrismaPGMQ_read ::
  "'s PrismaPGMQ \<Rightarrow> string \<Rightarrow> number \<Rightarrow> number option \<Rightarrow> Task option \<Rightarrow> 's prog" where
  "PrismaPGMQ_read this queueName vt qty conditional =
     PrismaPGMQ_transaction this (\<lambda>tx.
       PGMQTransactionClient_read tx queueName vt (Some (dflt (Finite 1) qty)) (Some (dflt [] conditional)))"

definition PrismaPGMQ_readWithPoll ::
  "'s PrismaPGMQ \<Rightarrow> string \<Rightarrow> number \<Rightarrow> number option \<Rightarrow> number option \<Rightarrow>
     number option \<Rightarrow> Task option \<Rightarrow> 's prog" where
  "PrismaPGMQ_readWithPoll this queueName vt qty maxPollSeconds pollIntervalMs conditional =
     PrismaPGMQ_transaction this (\<lambda>tx.
       PGMQTransactionClient_readWithPoll tx queueName vt (Some (dflt (Finite 1) qty))
       (Some (dflt (Finite 5) maxPollSeconds)) (Some (dflt (Finite 100) pollIntervalMs))
       (Some (dflt [] conditional)))"

definition PrismaPGMQ_pop ::
  "'s PrismaPGMQ \<Rightarrow> string \<Rightarrow> 's prog" where
  "PrismaPGMQ_pop this queueName =
     PrismaPGMQ_transaction this (\<lambda>tx.
       PGMQTransactionClient_pop tx queueName)"

definition PrismaPGMQ_deleteMessage ::
  "'s PrismaPGMQ \<Rightarrow> string \<Rightarrow> number \<Rightarrow> 's prog" where
  "PrismaPGMQ_deleteMessage this queueName msgId =
     PrismaPGMQ_transaction this (\<lambda>tx.
       PGMQTransactionClient_deleteMessage tx queueName msgId)"

definition PrismaPGMQ_deleteBatch ::
  "'s PrismaPGMQ \<Rightarrow> string \<Rightarrow> number list \<Rightarrow> 's prog" where
  "PrismaPGMQ_deleteBatch this queueName msgIds =
     PrismaPGMQ_transaction this (\<lambda>tx.
       PGMQTransactionClient_deleteBatch tx queueName msgIds)"

definition PrismaPGMQ_purgeQueue ::
  "'s PrismaPGMQ \<Rightarrow> string \<Rightarrow> 's prog" where
  "PrismaPGMQ_purgeQueue this queueName =
     PrismaPGMQ_transaction this (\<lambda>tx.
       PGMQTransactionClient_purgeQueue tx queueName)"

definition PrismaPGMQ_archive ::
  "'s PrismaPGMQ \<Rightarrow> string \<Rightarrow> number \<Rightarrow> 's prog" where
  "PrismaPGMQ_archive this queueName msgId =
     PrismaPGMQ_transaction this (\<lambda>tx.
       PGMQTransactionClient_archive tx queueName msgId)"

definition PrismaPGMQ_archiveBatch ::
  "'s PrismaPGMQ \<Rightarrow> string \<Rightarrow> number list \<Rightarrow> 's prog" where
  "PrismaPGMQ_archiveBatch this queueName msgIds =
     PrismaPGMQ_transaction this (\<lambda>tx.
       PGMQTransactionClient_archiveBatch tx queueName msgIds)"

definition PrismaPGMQ_createQueue ::
  "'s PrismaPGMQ \<Rightarrow> string \<Rightarrow> 's prog" where
  "PrismaPGMQ_createQueue this queueName =
     PrismaPGMQ_transaction this (\<lambda>tx.
       PGMQTransactionClient_createQueue tx queueName)"

definition PrismaPGMQ_createPartitionedQueue ::
  "'s PrismaPGMQ \<Rightarrow> string \<Rightarrow> string option \<Rightarrow> string option \<Rightarrow> 's prog" where
  "PrismaPGMQ_createPartitionedQueue this queueName partitionInterval retentionInterval =
     PrismaPGMQ_transaction this (\<lambda>tx.
       PGMQTransactionClient_createPartitionedQueue tx queueName
       (Some (dflt ''10000'' partitionInterval)) (Some (dflt ''100000'' retentionInterval)))"

definition PrismaPGMQ_createUnloggedQueue ::
  "'s PrismaPGMQ \<Rightarrow> string \<Rightarrow> 's prog" where
  "PrismaPGMQ_createUnloggedQueue this queueName =
     PrismaPGMQ_transaction this (\<lambda>tx.
       PGMQTransactionClient_createUnloggedQueue tx queueName)"

definition PrismaPGMQ_detachArchive ::
  "'s PrismaPGMQ \<Rightarrow> string \<Rightarrow> 's prog" where
  "PrismaPGMQ_detachArchive this queueName =
     PrismaPGMQ_transaction this (\<lambda>tx.
       PGMQTransactionClient_detachArchive tx queueName)"

definition PrismaPGMQ_dropQueue ::
  "'s PrismaPGMQ \<Rightarrow> string \<Rightarrow> 's prog" where
  "PrismaPGMQ_dropQueue this queueName =
     PrismaPGMQ_transaction this (\<lambda>tx.
       PGMQTransactionClient_dropQueue tx queueName)"

definition PrismaPGMQ_setVt ::
  "'s PrismaPGMQ \<Rightarrow> string \<Rightarrow> number \<Rightarrow> number \<Rightarrow> 's prog" where
  "PrismaPGMQ_setVt this queueName msgId vtOffset =
     PrismaPGMQ_transaction this (\<lambda>tx.
       PGMQTransactionClient_setVt tx queueName msgId vtOffset)"

definition PrismaPGMQ_listQueues ::
  "'s PrismaPGMQ \<Rightarrow> 's prog" where
  "PrismaPGMQ_listQueues this =
     PrismaPGMQ_transaction this (\<lambda>tx.
       PGMQTransactionClient_listQueues tx)"

definition PrismaPGMQ_metrics ::
  "'s PrismaPGMQ \<Rightarrow> string \<Rightarrow> 's prog" where
  "PrismaPGMQ_metrics this queueName =
     PrismaPGMQ_transaction this (\<lambda>tx.
       PGMQTransactionClient_metrics tx queueName)"

definition PrismaPGMQ_metricsAll ::
  "'s PrismaPGMQ \<Rightarrow> 's prog" where
  "PrismaPGMQ_metricsAll this =
     PrismaPGMQ_transaction this (\<lambda>tx.
       PGMQTransactionClient_metricsAll tx)"

section \<open>The client extension (\<^verbatim>\<open>pgmq-extension.ts\<close>, namespace \<^verbatim>\<open>$pgmq\<close>)\<close>

text \<open>
  The extension adds to the client one property, \<^verbatim>\<open>$pgmq\<close>, whose value is an object
  literal holding the methods. Each method reads \<^verbatim>\<open>this\<close>, so its behaviour depends on
  the receiver of the call: the object the method is looked up on. A receiver is either a
  client, which has the raw entry points, or the namespace object, which has the nineteen
  methods and neither \<^verbatim>\<open>$queryRaw\<close> nor \<^verbatim>\<open>$executeRaw\<close>.
\<close>

datatype 's receiver = ClientObject "'s PrismaClient" | NamespaceObject

text \<open>
  The property \<^verbatim>\<open>prisma.$pgmq\<close> of an extended client: the namespace object. In
  \<^verbatim>\<open>prisma.$pgmq.send(...)\<close> it is the receiver.
\<close>

definition dollar_pgmq :: "'s PrismaClient \<Rightarrow> 's receiver" where
  "dollar_pgmq prisma = NamespaceObject"

text \<open>\<^verbatim>\<open>Prisma.getExtensionContext(this)\<close> hands back its argument; only its type differs.\<close>

definition getExtensionContext :: "'s receiver \<Rightarrow> 's receiver" where
  "getExtensionContext that = that"

text \<open>
  \<^verbatim>\<open>TypeError: tx.$queryRaw is not a function\<close>, raised by a tagged-template call whose
  tag is \<^verbatim>\<open>undefined\<close>.
\<close>

fun not_a_function :: "entry_point \<Rightarrow> js_error" where
  "not_a_function QueryRaw = JsError ''TypeError'' ''tx.$queryRaw is not a function''"
| "not_a_function ExecuteRaw = JsError ''TypeError'' ''tx.$executeRaw is not a function''"

text \<open>
  An operation-layer function handed an untyped value (\<^verbatim>\<open>prisma as any\<close>) as its handle.
  On a client the function runs as it is. On an object without the entry point the function
  reaches for, the call \<^verbatim>\<open>tx.$queryRaw`...`\<close> (\<^verbatim>\<open>tx.$executeRaw`...`\<close>) throws before
  anything is sent; building the query before it has no effect.
\<close>

definition as_any ::
  "entry_point \<Rightarrow> 's receiver \<Rightarrow> ('s PrismaClient \<Rightarrow> 's prog) \<Rightarrow> 's prog" where
  "as_any entry handle operation w =
     (case handle of
        ClientObject client \<Rightarrow> operation client w
      | NamespaceObject \<Rightarrow> (Inl (not_a_function entry), w))"

text \<open>
  The methods. The source file carries a second variant of the extension, with the
  namespace \<^verbatim>\<open>pgmq\<close>, that wraps every call in \<^verbatim>\<open>$transaction\<close>; it is not the
  \<^verbatim>\<open>$pgmq\<close> namespace and is not embedded here.
\<close>

definition dollar_pgmq_send ::
  "'s receiver \<Rightarrow> string \<Rightarrow> Task \<Rightarrow> delay option \<Rightarrow> 's prog" where
  "dollar_pgmq_send this queueName msg delay =
     (let prisma = getExtensionContext this
      in as_any QueryRaw prisma (\<lambda>tx. send tx queueName msg delay))"

definition dollar_pgmq_sendBatch ::
  "'s receiver \<Rightarrow> string \<Rightarrow> Task list \<Rightarrow> delay option \<Rightarrow> 's prog" where
  "dollar_pgmq_sendBatch this queueName msgs delay =
     (let prisma = getExtensionContext this
      in as_any QueryRaw prisma (\<lambda>tx. sendBatch tx queueName msgs delay))"

definition dollar_pgmq_read ::
  "'s receiver \<Rightarrow> string \<Rightarrow> number \<Rightarrow> number option \<Rightarrow> Task option \<Rightarrow> 's prog" where
  "dollar_pgmq_read this queueName vt qty conditional =
     (let prisma = getExtensionContext this
      in as_any QueryRaw prisma
          (\<lambda>tx. read tx queueName vt (Some (dflt (Finite 1) qty)) (Some (dflt [] conditional))))"

definition dollar_pgmq_readWithPoll ::
  "'s receiver \<Rightarrow> string \<Rightarrow> number \<Rightarrow> number option \<Rightarrow> number option \<Rightarrow>
     number option \<Rightarrow> Task option \<Rightarrow> 's prog" where
  "dollar_pgmq_readWithPoll this queueName vt qty maxPollSeconds pollIntervalMs conditional =
     (let prisma = getExtensionContext this
      in as_any QueryRaw prisma
          (\<lambda>tx. readWithPoll tx queueName vt (Some (dflt (Finite 1) qty))
             (Some (dflt (Finite 5) maxPollSeconds)) (Some (dflt (Finite 100) pollIntervalMs))
             (Some (dflt [] conditional))))"

definition dollar_pgmq_pop ::
  "'s receiver \<Rightarrow> string \<Rightarrow> 's prog" where
  "dollar_pgmq_pop this queueName =
     (let prisma = getExtensionContext this
      in as_any QueryRaw prisma (\<lambda>tx. pop tx queueName))"

definition dollar_pgmq_deleteMessage ::
  "'s receiver \<Rightarrow> string \<Rightarrow> number \<Rightarrow> 's prog" where
  "dollar_pgmq_deleteMessage this queueName msgId =
     (let prisma = getExtensionContext this
      in as_any QueryRaw prisma (\<lambda>tx. deleteMessage tx queueName msgId))"

definition dollar_pgmq_deleteBatch ::
  "'s receiver \<Rightarrow> string \<Rightarrow> number list \<Rightarrow> 's prog" where
  "dollar_pgmq_deleteBatch this queueName msgIds =
     (let prisma = getExtensionContext this
      in as_any QueryRaw prisma (\<lambda>tx. deleteBatch tx queueName msgIds))"

definition dollar_pgmq_purgeQueue ::
  "'s receiver \<Rightarrow> string \<Rightarrow> 's prog" where
  "dollar_pgmq_purgeQueue this queueName =
     (let prisma = getExtensionContext this
      in as_any QueryRaw prisma (\<lambda>tx. purgeQueue tx queueName))"

definition dollar_pgmq_archive ::
  "'s receiver \<Rightarrow> string \<Rightarrow> number \<Rightarrow> 's prog" where
  "dollar_pgmq_archive this queueName msgId =
     (let prisma = getExtensionContext this
      in as_any QueryRaw prisma (\<lambda>tx. archive tx queueName msgId))"

definition dollar_pgmq_archiveBatch ::
  "'s receiver \<Rightarrow> string \<Rightarrow> number list \<Rightarrow> 's prog" where
  "dollar_pgmq_archiveBatch this queueName msgIds =
     (let prisma = getExtensionContext this
      in as_any QueryRaw prisma (\<lambda>tx. archiveBatch tx queueName msgIds))"

definition dollar_pgmq_createQueue ::
  "'s receiver \<Rightarrow> string \<Rightarrow> 's prog" where
  "dollar_pgmq_createQueue this queueName =
     (let prisma = getExtensionContext this
      in as_any ExecuteRaw prisma (\<lambda>tx. createQueue tx queueName))"

definition dollar_pgmq_createPartitionedQueue ::
  "'s receiver \<Rightarrow> string \<Rightarrow> string option \<Rightarrow> string option \<Rightarrow> 's prog" where
  "dollar_pgmq_createPartitionedQueue this queueName partitionInterval retentionInterval =
     (let prisma = getExtensionContext this
      in as_any ExecuteRaw prisma
          (\<lambda>tx. createPartitionedQueue tx queueName (Some (dflt ''10000'' partitionInterval)) (Some (dflt ''100000'' retentionInterval))
             ))"

definition dollar_pgmq_createUnloggedQueue ::
  "'s receiver \<Rightarrow> string \<Rightarrow> 's prog" where
  "dollar_pgmq_createUnloggedQueue this queueName =
     (let prisma = getExtensionContext this
      in as_any ExecuteRaw prisma (\<lambda>tx. createUnloggedQueue tx queueName))"

definition dollar_pgmq_detachArchive ::
  "'s receiver \<Rightarrow> string \<Rightarrow> 's prog" where
  "dollar_pgmq_detachArchive this queueName =
     (let prisma = getExtensionContext this
      in as_any ExecuteRaw prisma (\<lambda>tx. detachArchive tx queueName))"

definition dollar_pgmq_dropQueue ::
  "'s receiver \<Rightarrow> string \<Rightarrow> 's prog" where
  "dollar_pgmq_dropQueue this queueName =
     (let prisma = getExtensionContext this
      in as_any QueryRaw prisma (\<lambda>tx. dropQueue tx queueName))"

definition dollar_pgmq_setVt ::
  "'s receiver \<Rightarrow> string \<Rightarrow> number \<Rightarrow> number \<Rightarrow> 's prog" where
  "dollar_pgmq_setVt this queueName msgId vtOffset =
     (let prisma = getExtensionContext this
      in as_any QueryRaw prisma (\<lambda>tx. setVt tx queueName msgId vtOffset))"

definition dollar_pgmq_listQueues ::
  "'s receiver \<Rightarrow> 's prog" where
  "dollar_pgmq_listQueues this =
     (let prisma = getExtensionContext this
      in as_any QueryRaw prisma (\<lambda>tx. listQueues tx))"

definition dollar_pgmq_metrics ::
  "'s receiver \<Rightarrow> string \<Rightarrow> 's prog" where
  "dollar_pgmq_metrics this queueName =
     (let prisma = getExtensionContext this
      in as_any QueryRaw prisma (\<lambda>tx. metrics tx queueName))"

definition dollar_pgmq_metricsAll ::
  "'s receiver \<Rightarrow> 's prog" where
  "dollar_pgmq_metricsAll this =
     (let prisma = getExtensionContext this
      in as_any QueryRaw prisma (\<lambda>tx. metricsAll tx))"

section \<open>Collaborators outside the repository\<close>

subsection \<open>The test doubles of \<^verbatim>\<open>prisma.mock.ts\<close>\<close>

text \<open>
  \<^verbatim>\<open>mockTx.$queryRaw.mockResolvedValue(rows)\<close> and
  \<^verbatim>\<open>mockTx.$queryRaw.mockRejectedValue(error)\<close>: handles without a state of their own.
  \<^verbatim>\<open>$executeRaw\<close> answers \<^verbatim>\<open>0\<close>, as the capture's default response does.
\<close>

definition mockResolvedValue :: "row list \<Rightarrow> unit TransactionClient" where
  "mockResolvedValue rows =
     \<lparr>queryRaw = (\<lambda>q s. (Inr rows, s)), executeRaw = (\<lambda>q s. (Inr 0, s))\<rparr>"

definition mockRejectedValue :: "js_error \<Rightarrow> unit TransactionClient" where
  "mockRejectedValue error =
     \<lparr>queryRaw = (\<lambda>q s. (Inl error, s)), executeRaw = (\<lambda>q s. (Inr 0, s))\<rparr>"

definition world0 :: "unit world" where
  "world0 = \<lparr>db = (), calls = []\<rparr>"

subsection \<open>The contract of \<^verbatim>\<open>$transaction\<close>\<close>


subsection \<open>A reference engine\<close>

text \<open>
  Modelled from the spec: the queue engine is an external collaborator and its
  \<^verbatim>\<open>delete\<close> primitive is not part of the repository. Sections 4.1 and 6 give its
  contract: called with a queue and an id, it answers one row holding a boolean, true when
  the message was present and is now removed, false when the id does not exist or was
  already removed; a queue that does not exist is rejected with an \<^verbatim>\<open>EngineError\<close>.
  The state maps each existing queue to the ids of the messages it holds. Every other
  primitive is left out: the reference engine rejects it.
\<close>

type_synonym store = "string \<rightharpoonup> number list"

text \<open>
  Modelled from the spec: the repository has no error classes; section 7 calls a call
  rejected by the engine an \<^verbatim>\<open>EngineError\<close>.
\<close>

definition EngineError :: "string \<Rightarrow> js_error" where
  "EngineError msg = JsError ''EngineError'' msg"

text \<open>
  Modelled from the spec: \<^verbatim>\<open>delete\<close> with the arguments queue, id (section 6), answering
  one row with the column \<^verbatim>\<open>delete\<close>, the column \<^verbatim>\<open>deleteMessage\<close> reads.
\<close>

definition engine_queryRaw :: "sql \<Rightarrow> store \<Rightarrow> (js_error + row list) \<times> store" where
  "engine_queryRaw q s =
     (if sql_text q = ''SELECT pgmq.delete(?, ?::integer)'' then
        (case sql_params q of
           [JStr queue, JNum msgId] \<Rightarrow>
             (case s queue of
                None \<Rightarrow> (Inl (EngineError ''queue does not exist''), s)
              | Some ids \<Rightarrow>
                  if msgId \<in> set ids
                  then (Inr [[(''delete'', JBool True)]], s(queue \<mapsto> removeAll msgId ids))
                  else (Inr [[(''delete'', JBool False)]], s))
         | _ \<Rightarrow> (Inl (EngineError ''bad arguments''), s))
      else (Inl (EngineError ''primitive not modelled''), s))"

text \<open>
  Modelled from the spec: nothing of what goes through \<^verbatim>\<open>$executeRaw\<close> (the queue
  lifecycle, section 4.1) is needed here, and the reference engine rejects it.
\<close>

definition engine_executeRaw :: "sql \<Rightarrow> store \<Rightarrow> (js_error + nat) \<times> store" where
  "engine_executeRaw q s = (Inl (EngineError ''primitive not modelled''), s)"

text \<open>Modelled from the spec: the handle onto the reference engine.\<close>

definition engine_tx :: "store TransactionClient" where
  "engine_tx = \<lparr>queryRaw = engine_queryRaw, executeRaw = engine_executeRaw\<rparr>"

text \<open>
  Modelled from the spec: a \<^verbatim>\<open>$transaction\<close> that keeps the contract of section 4.2 on
  the reference engine, by running the block and putting the old engine state back when it
  fails.
\<close>

definition engine_transaction :: "(store TransactionClient \<Rightarrow> store prog) \<Rightarrow> store prog" where
  "engine_transaction f w =
     (case f engine_tx w of
        (Inr v, w') \<Rightarrow> (Inr v, w')
      | (Inl e, w') \<Rightarrow> (Inl e, w'\<lparr>db := db w\<rparr>))"

text \<open>Modelled from the spec: the client onto the reference engine.\<close>

definition engine_prisma :: "store PrismaClient" where
  "engine_prisma =
     \<lparr>queryRaw = engine_queryRaw, executeRaw = engine_executeRaw, transaction = engine_transaction\<rparr>"


subsection \<open>Sample data\<close>

definition task0 :: Task where
  "task0 = [(''a'', JNum (Finite 1))]"

definition row0 :: row where
  "row0 = [(''send'', JNum (Finite 123)), (''delete'', JBool True), (''purge_queue'', JNum (Finite 5)),
           (''archive'', JBool True), (''drop_queue'', JBool True)]"

definition world_q1 :: "store world" where
  "world_q1 = \<lparr>db = [''q1'' \<mapsto> [Finite 1, Finite 2]], calls = []\<rparr>"



section \<open>Properties\<close>

subsection \<open>Shapes of the operation layer\<close>

lemma dollar_queryRaw_calls:
  "calls (snd (dollar_queryRaw tx q w)) = calls w @ [(QueryRaw, q)]"
  by (simp add: dollar_queryRaw_def split: prod.splits)

lemma dollar_executeRaw_calls:
  "calls (snd (dollar_executeRaw tx q w)) = calls w @ [(ExecuteRaw, q)]"
  by (simp add: dollar_executeRaw_def split: prod.splits)

lemma first_or_throw_snd: "snd (first_or_throw msg f res) = snd res"
  by (simp add: first_or_throw_def split: prod.splits sum.splits list.splits)

lemma all_rows_snd: "snd (all_rows f res) = snd res"
  by (simp add: all_rows_def split: prod.splits sum.splits)

lemma returns_void_snd: "snd (returns_void res) = snd res"
  by (simp add: returns_void_def split: prod.splits sum.splits)

lemmas shape_snd = first_or_throw_snd all_rows_snd returns_void_snd
  dollar_queryRaw_calls dollar_executeRaw_calls

lemma dollar_queryRaw_snd:
  "snd (dollar_queryRaw tx q w) =
     \<lparr>db = snd (queryRaw tx q (db w)), calls = calls w @ [(QueryRaw, q)]\<rparr>"
  by (simp add: dollar_queryRaw_def split: prod.splits)

lemma dollar_executeRaw_snd:
  "snd (dollar_executeRaw tx q w) =
     \<lparr>db = snd (executeRaw tx q (db w)), calls = calls w @ [(ExecuteRaw, q)]\<rparr>"
  by (simp add: dollar_executeRaw_def split: prod.splits)

lemmas shape_world = first_or_throw_snd all_rows_snd returns_void_snd
  dollar_queryRaw_snd dollar_executeRaw_snd

subsection \<open>Unfolding sets\<close>

lemma dflt_Some [simp]: "dflt d (Some v) = v"
  by (simp add: dflt_def)

lemmas operation_defs = send_def sendBatch_def read_def readWithPoll_def pop_def deleteMessage_def
  deleteBatch_def purgeQueue_def archive_def archiveBatch_def createQueue_def
  createPartitionedQueue_def createUnloggedQueue_def detachArchive_def dropQueue_def setVt_def
  listQueues_def metrics_def metricsAll_def

lemmas facade_defs = PGMQTransactionClient_send_def PGMQTransactionClient_sendBatch_def
  PGMQTransactionClient_read_def PGMQTransactionClient_readWithPoll_def PGMQTransactionClient_pop_def
  PGMQTransactionClient_deleteMessage_def PGMQTransactionClient_deleteBatch_def
  PGMQTransactionClient_purgeQueue_def PGMQTransactionClient_archive_def
  PGMQTransactionClient_archiveBatch_def PGMQTransactionClient_createQueue_def
  PGMQTransactionClient_createPartitionedQueue_def PGMQTransactionClient_createUnloggedQueue_def
  PGMQTransactionClient_detachArchive_def PGMQTransactionClient_dropQueue_def
  PGMQTransactionClient_setVt_def PGMQTransactionClient_listQueues_def
  PGMQTransactionClient_metrics_def PGMQTransactionClient_metricsAll_def

lemmas convenience_defs = PrismaPGMQ_send_def PrismaPGMQ_sendBatch_def PrismaPGMQ_read_def
  PrismaPGMQ_readWithPoll_def PrismaPGMQ_pop_def PrismaPGMQ_deleteMessage_def
  PrismaPGMQ_deleteBatch_def PrismaPGMQ_purgeQueue_def PrismaPGMQ_archive_def
  PrismaPGMQ_archiveBatch_def PrismaPGMQ_createQueue_def PrismaPGMQ_createPartitionedQueue_def
  PrismaPGMQ_createUnloggedQueue_def PrismaPGMQ_detachArchive_def PrismaPGMQ_dropQueue_def
  PrismaPGMQ_setVt_def PrismaPGMQ_listQueues_def PrismaPGMQ_metrics_def PrismaPGMQ_metricsAll_def

lemmas extension_defs = dollar_pgmq_send_def dollar_pgmq_sendBatch_def dollar_pgmq_read_def
  dollar_pgmq_readWithPoll_def dollar_pgmq_pop_def dollar_pgmq_deleteMessage_def
  dollar_pgmq_deleteBatch_def dollar_pgmq_purgeQueue_def dollar_pgmq_archive_def
  dollar_pgmq_archiveBatch_def dollar_pgmq_createQueue_def dollar_pgmq_createPartitionedQueue_def
  dollar_pgmq_createUnloggedQueue_def dollar_pgmq_detachArchive_def dollar_pgmq_dropQueue_def
  dollar_pgmq_setVt_def dollar_pgmq_listQueues_def dollar_pgmq_metrics_def dollar_pgmq_metricsAll_def

subsection \<open>Results of the shapes\<close>

lemma first_or_throw_fst:
  "fst (first_or_throw msg f res) =
     (case fst res of
        Inl e \<Rightarrow> Inl e
      | Inr [] \<Rightarrow> Inl (new_Error msg)
      | Inr (firstResult # rest) \<Rightarrow> Inr (f firstResult))"
  by (simp add: first_or_throw_def split: prod.splits sum.splits list.splits)

lemma all_rows_fst:
  "fst (all_rows f res) = map_sum id (\<lambda>result. JArr (map f result)) (fst res)"
  by (simp add: all_rows_def split: prod.splits sum.splits)

lemma dollar_queryRaw_fst: "fst (dollar_queryRaw tx q w) = fst (queryRaw tx q (db w))"
  by (simp add: dollar_queryRaw_def split: prod.splits)



lemma engine_delete:
  "queryRaw engine_tx (deleteMessage_sql queueName msgId) s =
     (case s queueName of
        None \<Rightarrow> (Inl (EngineError ''queue does not exist''), s)
      | Some ids \<Rightarrow>
          if msgId \<in> set ids
          then (Inr [[(''delete'', JBool True)]], s(queueName \<mapsto> removeAll msgId ids))
          else (Inr [[(''delete'', JBool False)]], s))"
  by (simp add: engine_tx_def engine_queryRaw_def deleteMessage_sql_def)



lemma deleteMessage_on_engine_prisma:
  "deleteMessage engine_prisma ''q1'' (Finite 1) world_q1 =
     (Inr (JBool True),
      \<lparr>db = [''q1'' \<mapsto> [Finite 2]], calls = [(QueryRaw, deleteMessage_sql ''q1'' (Finite 1))]\<rparr>)"
  by (simp add: deleteMessage_def first_or_throw_def dollar_queryRaw_def engine_prisma_def
      engine_queryRaw_def deleteMessage_sql_def world_q1_def getprop_def)

subsection \<open>Round trips\<close>

text \<open>
  Claim C5. Every function of the operation layer, on every input and whatever the engine
  answers (rows, no rows, or a failure), makes exactly one round trip: the state it leaves
  is the state the engine leaves after the one query the function builds, applied once to
  the state the function found, and the record of calls has grown by exactly that one
  entry. This holds for \<^verbatim>\<open>deleteBatch\<close> and \<^verbatim>\<open>archiveBatch\<close> with an empty id
  list as for any other list. Nothing is skipped and nothing is retried.
\<close>

theorem one_round_trip_per_call:
  "snd (send tx queueName msg delay w) =
       \<lparr>db = snd (queryRaw tx (send_sql queueName msg delay) (db w)),
        calls = calls w @ [(QueryRaw, send_sql queueName msg delay)]\<rparr>
  \<and> snd (sendBatch tx queueName msgs delay w) =
       \<lparr>db = snd (queryRaw tx (sendBatch_sql queueName msgs delay) (db w)),
        calls = calls w @ [(QueryRaw, sendBatch_sql queueName msgs delay)]\<rparr>
  \<and> snd (read tx queueName vt qty conditional w) =
       \<lparr>db = snd (queryRaw tx (read_sql queueName vt (dflt (Finite 1) qty) (dflt [] conditional)) (db w)),
        calls = calls w @ [(QueryRaw, read_sql queueName vt (dflt (Finite 1) qty) (dflt [] conditional))]\<rparr>
  \<and> snd (readWithPoll tx queueName vt qty maxPollSeconds pollIntervalMs conditional w) =
       \<lparr>db = snd (queryRaw tx (readWithPoll_sql queueName vt (dflt (Finite 1) qty) (dflt (Finite 5) maxPollSeconds) (dflt (Finite 100) pollIntervalMs) (dflt [] conditional)) (db w)),
        calls = calls w @ [(QueryRaw, readWithPoll_sql queueName vt (dflt (Finite 1) qty) (dflt (Finite 5) maxPollSeconds) (dflt (Finite 100) pollIntervalMs) (dflt [] conditional))]\<rparr>
  \<and> snd (pop tx queueName w) =
       \<lparr>db = snd (queryRaw tx (pop_sql queueName) (db w)),
        calls = calls w @ [(QueryRaw, pop_sql queueName)]\<rparr>
  \<and> snd (deleteMessage tx queueName msgId w) =
       \<lparr>db = snd (queryRaw tx (deleteMessage_sql queueName msgId) (db w)),
        calls = calls w @ [(QueryRaw, deleteMessage_sql queueName msgId)]\<rparr>
  \<and> snd (deleteBatch tx queueName msgIds w) =
       \<lparr>db = snd (queryRaw tx (deleteBatch_sql queueName msgIds) (db w)),
        calls = calls w @ [(QueryRaw, deleteBatch_sql queueName msgIds)]\<rparr>
  \<and> snd (purgeQueue tx queueName w) =
       \<lparr>db = snd (queryRaw tx (purgeQueue_sql queueName) (db w)),
        calls = calls w @ [(QueryRaw, purgeQueue_sql queueName)]\<rparr>
  \<and> snd (archive tx queueName msgId w) =
       \<lparr>db = snd (queryRaw tx (archive_sql queueName msgId) (db w)),
        calls = calls w @ [(QueryRaw, archive_sql queueName msgId)]\<rparr>
  \<and> snd (archiveBatch tx queueName msgIds w) =
       \<lparr>db = snd (queryRaw tx (archiveBatch_sql queueName msgIds) (db w)),
        calls = calls w @ [(QueryRaw, archiveBatch_sql queueName msgIds)]\<rparr>
  \<and> snd (createQueue tx queueName w) =
       \<lparr>db = snd (executeRaw tx (createQueue_sql queueName) (db w)),
        calls = calls w @ [(ExecuteRaw, createQueue_sql queueName)]\<rparr>
  \<and> snd (createPartitionedQueue tx queueName partitionInterval retentionInterval w) =
       \<lparr>db = snd (executeRaw tx (createPartitionedQueue_sql queueName (dflt ''10000'' partitionInterval) (dflt ''100000'' retentionInterval)) (db w)),
        calls = calls w @ [(ExecuteRaw, createPartitionedQueue_sql queueName (dflt ''10000'' partitionInterval) (dflt ''100000'' retentionInterval))]\<rparr>
  \<and> snd (createUnloggedQueue tx queueName w) =
       \<lparr>db = snd (executeRaw tx (createUnloggedQueue_sql queueName) (db w)),
        calls = calls w @ [(ExecuteRaw, createUnloggedQueue_sql queueName)]\<rparr>
  \<and> snd (detachArchive tx queueName w) =
       \<lparr>db = snd (executeRaw tx (detachArchive_sql queueName) (db w)),
        calls = calls w @ [(ExecuteRaw, detachArchive_sql queueName)]\<rparr>
  \<and> snd (dropQueue tx queueName w) =
       \<lparr>db = snd (queryRaw tx (dropQueue_sql queueName) (db w)),
        calls = calls w @ [(QueryRaw, dropQueue_sql queueName)]\<rparr>
  \<and> snd (setVt tx queueName msgId vtOffset w) =
       \<lparr>db = snd (queryRaw tx (setVt_sql queueName msgId vtOffset) (db w)),
        calls = calls w @ [(QueryRaw, setVt_sql queueName msgId vtOffset)]\<rparr>
  \<and> snd (listQueues tx w) =
       \<lparr>db = snd (queryRaw tx listQueues_sql (db w)),
        calls = calls w @ [(QueryRaw, listQueues_sql)]\<rparr>
  \<and> snd (metrics tx queueName w) =
       \<lparr>db = snd (queryRaw tx (metrics_sql queueName) (db w)),
        calls = calls w @ [(QueryRaw, metrics_sql queueName)]\<rparr>
  \<and> snd (metricsAll tx w) =
       \<lparr>db = snd (queryRaw tx metricsAll_sql (db w)),
        calls = calls w @ [(QueryRaw, metricsAll_sql)]\<rparr>"
proof (intro conjI)
qed (simp_all add: operation_defs shape_world)

subsection \<open>Delegation\<close>

text \<open>
  Claim C2. Every method of the convenience client \<^verbatim>\<open>PrismaPGMQ\<close> opens one transaction
  scope and evaluates the method of the same name of the bound facade on the handle of
  that scope, with the arguments it was given; every method of the bound facade
  \<^verbatim>\<open>PGMQTransactionClient\<close> is the operation-layer function applied to the pinned handle
  with the same arguments. The defaults of the three layers agree, and the result is
  returned as it is.
\<close>

theorem convenience_client_delegates:
  "(PrismaPGMQ_send this queueName msg delay =
       transaction (the_prisma this) (\<lambda>tx.
       PGMQTransactionClient_send (PGMQTransactionClient tx) queueName msg delay)
    \<and> PrismaPGMQ_sendBatch this queueName msgs delay =
       transaction (the_prisma this) (\<lambda>tx.
       PGMQTransactionClient_sendBatch (PGMQTransactionClient tx) queueName msgs delay)
    \<and> PrismaPGMQ_read this queueName vt qty conditional =
       transaction (the_prisma this) (\<lambda>tx.
       PGMQTransactionClient_read (PGMQTransactionClient tx) queueName vt qty conditional)
    \<and> PrismaPGMQ_readWithPoll this queueName vt qty maxPollSeconds pollIntervalMs conditional =
       transaction (the_prisma this) (\<lambda>tx.
       PGMQTransactionClient_readWithPoll (PGMQTransactionClient tx) queueName vt qty maxPollSeconds pollIntervalMs conditional)
    \<and> PrismaPGMQ_pop this queueName =
       transaction (the_prisma this) (\<lambda>tx.
       PGMQTransactionClient_pop (PGMQTransactionClient tx) queueName)
    \<and> PrismaPGMQ_deleteMessage this queueName msgId =
       transaction (the_prisma this) (\<lambda>tx.
       PGMQTransactionClient_deleteMessage (PGMQTransactionClient tx) queueName msgId)
    \<and> PrismaPGMQ_deleteBatch this queueName msgIds =
       transaction (the_prisma this) (\<lambda>tx.
       PGMQTransactionClient_deleteBatch (PGMQTransactionClient tx) queueName msgIds)
    \<and> PrismaPGMQ_purgeQueue this queueName =
       transaction (the_prisma this) (\<lambda>tx.
       PGMQTransactionClient_purgeQueue (PGMQTransactionClient tx) queueName)
    \<and> PrismaPGMQ_archive this queueName msgId =
       transaction (the_prisma this) (\<lambda>tx.
       PGMQTransactionClient_archive (PGMQTransactionClient tx) queueName msgId)
    \<and> PrismaPGMQ_archiveBatch this queueName msgIds =
       transaction (the_prisma this) (\<lambda>tx.
       PGMQTransactionClient_archiveBatch (PGMQTransactionClient tx) queueName msgIds)
    \<and> PrismaPGMQ_createQueue this queueName =
       transaction (the_prisma this) (\<lambda>tx.
       PGMQTransactionClient_createQueue (PGMQTransactionClient tx) queueName)
    \<and> PrismaPGMQ_createPartitionedQueue this queueName partitionInterval retentionInterval =
       transaction (the_prisma this) (\<lambda>tx.
       PGMQTransactionClient_createPartitionedQueue (PGMQTransactionClient tx) queueName partitionInterval retentionInterval)
    \<and> PrismaPGMQ_createUnloggedQueue this queueName =
       transaction (the_prisma this) (\<lambda>tx.
       PGMQTransactionClient_createUnloggedQueue (PGMQTransactionClient tx) queueName)
    \<and> PrismaPGMQ_detachArchive this queueName =
       transaction (the_prisma this) (\<lambda>tx.
       PGMQTransactionClient_detachArchive (PGMQTransactionClient tx) queueName)
    \<and> PrismaPGMQ_dropQueue this queueName =
       transaction (the_prisma this) (\<lambda>tx.
       PGMQTransactionClient_dropQueue (PGMQTransactionClient tx) queueName)
    \<and> PrismaPGMQ_setVt this queueName msgId vtOffset =
       transaction (the_prisma this) (\<lambda>tx.
       PGMQTransactionClient_setVt (PGMQTransactionClient tx) queueName msgId vtOffset)
    \<and> PrismaPGMQ_listQueues this =
       transaction (the_prisma this) (\<lambda>tx.
       PGMQTransactionClient_listQueues (PGMQTransactionClient tx))
    \<and> PrismaPGMQ_metrics this queueName =
       transaction (the_prisma this) (\<lambda>tx.
       PGMQTransactionClient_metrics (PGMQTransactionClient tx) queueName)
    \<and> PrismaPGMQ_metricsAll this =
       transaction (the_prisma this) (\<lambda>tx.
       PGMQTransactionClient_metricsAll (PGMQTransactionClient tx)))
  \<and> (PGMQTransactionClient_send facade queueName msg delay = send (the_tx facade) queueName msg delay
    \<and> PGMQTransactionClient_sendBatch facade queueName msgs delay = sendBatch (the_tx facade) queueName msgs delay
    \<and> PGMQTransactionClient_read facade queueName vt qty conditional = read (the_tx facade) queueName vt qty conditional
    \<and> PGMQTransactionClient_readWithPoll facade queueName vt qty maxPollSeconds pollIntervalMs conditional = readWithPoll (the_tx facade) queueName vt qty maxPollSeconds pollIntervalMs conditional
    \<and> PGMQTransactionClient_pop facade queueName = pop (the_tx facade) queueName
    \<and> PGMQTransactionClient_deleteMessage facade queueName msgId = deleteMessage (the_tx facade) queueName msgId
    \<and> PGMQTransactionClient_deleteBatch facade queueName msgIds = deleteBatch (the_tx facade) queueName msgIds
    \<and> PGMQTransactionClient_purgeQueue facade queueName = purgeQueue (the_tx facade) queueName
    \<and> PGMQTransactionClient_archive facade queueName msgId = archive (the_tx facade) queueName msgId
    \<and> PGMQTransactionClient_archiveBatch facade queueName msgIds = archiveBatch (the_tx facade) queueName msgIds
    \<and> PGMQTransactionClient_createQueue facade queueName = createQueue (the_tx facade) queueName
    \<and> PGMQTransactionClient_createPartitionedQueue facade queueName partitionInterval retentionInterval = createPartitionedQueue (the_tx facade) queueName partitionInterval retentionInterval
    \<and> PGMQTransactionClient_createUnloggedQueue facade queueName = createUnloggedQueue (the_tx facade) queueName
    \<and> PGMQTransactionClient_detachArchive facade queueName = detachArchive (the_tx facade) queueName
    \<and> PGMQTransactionClient_dropQueue facade queueName = dropQueue (the_tx facade) queueName
    \<and> PGMQTransactionClient_setVt facade queueName msgId vtOffset = setVt (the_tx facade) queueName msgId vtOffset
    \<and> PGMQTransactionClient_listQueues facade = listQueues (the_tx facade)
    \<and> PGMQTransactionClient_metrics facade queueName = metrics (the_tx facade) queueName
    \<and> PGMQTransactionClient_metricsAll facade = metricsAll (the_tx facade))"
  by (simp add: fun_eq_iff convenience_defs PrismaPGMQ_transaction_def facade_defs operation_defs)

text \<open>
  Claim C8 fails on the code, as \<^verbatim>\<open>prisma.$pgmq.deleteMessage('q1', 1)\<close> shows on a
  queue holding messages 1 and 2: the method throws and leaves the queue as it was, where
  the bare call on the client removes the message and returns true. In \<^verbatim>\<open>prisma.$pgmq.op(args)\<close> the receiver is the
  namespace object, not the extended client, and that object is what the method hands to
  the operation layer as the handle. The call to the raw entry point throws a
  \<^verbatim>\<open>TypeError\<close>; no round trip is made, no transaction scope is opened, and nothing
  changes. Only with the client itself as receiver would the method be the bare
  operation-layer call on the client, which is what the claim and the README describe.
\<close>

theorem extension_receiver_is_namespace_object:
  "dollar_pgmq_deleteMessage (dollar_pgmq engine_prisma) ''q1'' (Finite 1) world_q1 =
     (Inl (JsError ''TypeError'' ''tx.$queryRaw is not a function''), world_q1)
  \<and> deleteMessage engine_prisma ''q1'' (Finite 1) world_q1 =
     (Inr (JBool True),
      \<lparr>db = [''q1'' \<mapsto> [Finite 2]], calls = [(QueryRaw, deleteMessage_sql ''q1'' (Finite 1))]\<rparr>)
  \<and> (dollar_pgmq_send (dollar_pgmq prisma) queueName msg delay w =
       (Inl (not_a_function QueryRaw), w)
    \<and> dollar_pgmq_sendBatch (dollar_pgmq prisma) queueName msgs delay w =
       (Inl (not_a_function QueryRaw), w)
    \<and> dollar_pgmq_read (dollar_pgmq prisma) queueName vt qty conditional w =
       (Inl (not_a_function QueryRaw), w)
    \<and> dollar_pgmq_readWithPoll (dollar_pgmq prisma) queueName vt qty maxPollSeconds pollIntervalMs conditional w =
       (Inl (not_a_function QueryRaw), w)
    \<and> dollar_pgmq_pop (dollar_pgmq prisma) queueName w =
       (Inl (not_a_function QueryRaw), w)
    \<and> dollar_pgmq_deleteMessage (dollar_pgmq prisma) queueName msgId w =
       (Inl (not_a_function QueryRaw), w)
    \<and> dollar_pgmq_deleteBatch (dollar_pgmq prisma) queueName msgIds w =
       (Inl (not_a_function QueryRaw), w)
    \<and> dollar_pgmq_purgeQueue (dollar_pgmq prisma) queueName w =
       (Inl (not_a_function QueryRaw), w)
    \<and> dollar_pgmq_archive (dollar_pgmq prisma) queueName msgId w =
       (Inl (not_a_function QueryRaw), w)
    \<and> dollar_pgmq_archiveBatch (dollar_pgmq prisma) queueName msgIds w =
       (Inl (not_a_function QueryRaw), w)
    \<and> dollar_pgmq_createQueue (dollar_pgmq prisma) queueName w =
       (Inl (not_a_function ExecuteRaw), w)
    \<and> dollar_pgmq_createPartitionedQueue (dollar_pgmq prisma) queueName partitionInterval retentionInterval w =
       (Inl (not_a_function ExecuteRaw), w)
    \<and> dollar_pgmq_createUnloggedQueue (dollar_pgmq prisma) queueName w =
       (Inl (not_a_function ExecuteRaw), w)
    \<and> dollar_pgmq_detachArchive (dollar_pgmq prisma) queueName w =
       (Inl (not_a_function ExecuteRaw), w)
    \<and> dollar_pgmq_dropQueue (dollar_pgmq prisma) queueName w =
       (Inl (not_a_function QueryRaw), w)
    \<and> dollar_pgmq_setVt (dollar_pgmq prisma) queueName msgId vtOffset w =
       (Inl (not_a_function QueryRaw), w)
    \<and> dollar_pgmq_listQueues (dollar_pgmq prisma) w =
       (Inl (not_a_function QueryRaw), w)
    \<and> dollar_pgmq_metrics (dollar_pgmq prisma) queueName w =
       (Inl (not_a_function QueryRaw), w)
    \<and> dollar_pgmq_metricsAll (dollar_pgmq prisma) w =
       (Inl (not_a_function QueryRaw), w))
  \<and> (dollar_pgmq_send (ClientObject prisma) queueName msg delay = send prisma queueName msg delay
    \<and> dollar_pgmq_sendBatch (ClientObject prisma) queueName msgs delay = sendBatch prisma queueName msgs delay
    \<and> dollar_pgmq_read (ClientObject prisma) queueName vt qty conditional = read prisma queueName vt qty conditional
    \<and> dollar_pgmq_readWithPoll (ClientObject prisma) queueName vt qty maxPollSeconds pollIntervalMs conditional = readWithPoll prisma queueName vt qty maxPollSeconds pollIntervalMs conditional
    \<and> dollar_pgmq_pop (ClientObject prisma) queueName = pop prisma queueName
    \<and> dollar_pgmq_deleteMessage (ClientObject prisma) queueName msgId = deleteMessage prisma queueName msgId
    \<and> dollar_pgmq_deleteBatch (ClientObject prisma) queueName msgIds = deleteBatch prisma queueName msgIds
    \<and> dollar_pgmq_purgeQueue (ClientObject prisma) queueName = purgeQueue prisma queueName
    \<and> dollar_pgmq_archive (ClientObject prisma) queueName msgId = archive prisma queueName msgId
    \<and> dollar_pgmq_archiveBatch (ClientObject prisma) queueName msgIds = archiveBatch prisma queueName msgIds
    \<and> dollar_pgmq_createQueue (ClientObject prisma) queueName = createQueue prisma queueName
    \<and> dollar_pgmq_createPartitionedQueue (ClientObject prisma) queueName partitionInterval retentionInterval = createPartitionedQueue prisma queueName partitionInterval retentionInterval
    \<and> dollar_pgmq_createUnloggedQueue (ClientObject prisma) queueName = createUnloggedQueue prisma queueName
    \<and> dollar_pgmq_detachArchive (ClientObject prisma) queueName = detachArchive prisma queueName
    \<and> dollar_pgmq_dropQueue (ClientObject prisma) queueName = dropQueue prisma queueName
    \<and> dollar_pgmq_setVt (ClientObject prisma) queueName msgId vtOffset = setVt prisma queueName msgId vtOffset
    \<and> dollar_pgmq_listQueues (ClientObject prisma) = listQueues prisma
    \<and> dollar_pgmq_metrics (ClientObject prisma) queueName = metrics prisma queueName
    \<and> dollar_pgmq_metricsAll (ClientObject prisma) = metricsAll prisma)"
proof -
  have on_namespace: "as_any entry (getExtensionContext (dollar_pgmq prisma)) operation w =
      (Inl (not_a_function entry), w)" for entry prisma and operation :: "'s PrismaClient \<Rightarrow> 's prog" and w
    by (simp add: as_any_def getExtensionContext_def dollar_pgmq_def)
  have on_client: "as_any entry (getExtensionContext (ClientObject prisma)) operation = operation prisma"
    for entry prisma and operation :: "'s PrismaClient \<Rightarrow> 's prog"
    by (simp add: fun_eq_iff as_any_def getExtensionContext_def)
  have at_q1: "dollar_pgmq_deleteMessage (dollar_pgmq engine_prisma) ''q1'' (Finite 1) world_q1 =
     (Inl (JsError ''TypeError'' ''tx.$queryRaw is not a function''), world_q1)"
    by (simp add: dollar_pgmq_deleteMessage_def as_any_def getExtensionContext_def dollar_pgmq_def)
  show ?thesis
    by (simp add: at_q1 deleteMessage_on_engine_prisma)
      (simp add: fun_eq_iff extension_defs on_namespace on_client operation_defs)
qed

subsection \<open>Transaction scope\<close>



subsection \<open>Single-row results\<close>

text \<open>
  Claim C3, as stated, fails in its last part. The failure raised by \<^verbatim>\<open>send\<close> on zero
  rows is a plain \<^verbatim>\<open>Error\<close> with a message; the client has no error class of its own.
  A handle that rejects with such an \<^verbatim>\<open>Error\<close> makes \<^verbatim>\<open>send\<close> fail with exactly
  the same value, so the two kinds of failure are not distinct.
\<close>

theorem zero_rows_error_is_generic:
  "fst (send (mockResolvedValue []) ''q1'' [(''a'', JNum (Finite 1))] None world0)
     = Inl (JsError ''Error'' ''No result returned from pgmq.send'')
   \<and> fst (send (mockRejectedValue (JsError ''Error'' ''No result returned from pgmq.send''))
            ''q1'' [(''a'', JNum (Finite 1))] None world0)
     = Inl (JsError ''Error'' ''No result returned from pgmq.send'')"
  by (simp add: send_def first_or_throw_fst dollar_queryRaw_fst mockResolvedValue_def
      mockRejectedValue_def new_Error_def)

text \<open>
  Claim C3, amended. When the engine answers with rows, \<^verbatim>\<open>send\<close>, \<^verbatim>\<open>metrics\<close> and
  \<^verbatim>\<open>setVt\<close> return the value carried by the single row, and fail exactly when there are
  zero rows; the failure is the generic \<^verbatim>\<open>Error\<close> with the message
  \<^verbatim>\<open>No result returned from pgmq.send\<close> (\<^verbatim>\<open>pgmq.metrics\<close>, \<^verbatim>\<open>pgmq.set_vt\<close>). A
  failure of the engine is passed on unchanged.
\<close>

theorem single_row_or_generic_Error:
  "(fst (queryRaw tx (send_sql queueName msg delay) (db w)) = Inr rows \<longrightarrow>
      (rows = [r] \<longrightarrow> fst (send tx queueName msg delay w) = Inr (getprop r ''send''))
    \<and> (isl (fst (send tx queueName msg delay w)) \<longleftrightarrow> rows = [])
    \<and> (rows = [] \<longrightarrow> fst (send tx queueName msg delay w)
          = Inl (JsError ''Error'' ''No result returned from pgmq.send'')))
 \<and> (fst (queryRaw tx (send_sql queueName msg delay) (db w)) = Inl e \<longrightarrow>
      fst (send tx queueName msg delay w) = Inl e)
 \<and> (fst (queryRaw tx (metrics_sql queueName) (db w)) = Inr rows \<longrightarrow>
      (rows = [r] \<longrightarrow> fst (metrics tx queueName w) = Inr (JObj r))
    \<and> (isl (fst (metrics tx queueName w)) \<longleftrightarrow> rows = [])
    \<and> (rows = [] \<longrightarrow> fst (metrics tx queueName w)
          = Inl (JsError ''Error'' ''No result returned from pgmq.metrics'')))
 \<and> (fst (queryRaw tx (metrics_sql queueName) (db w)) = Inl e \<longrightarrow>
      fst (metrics tx queueName w) = Inl e)
 \<and> (fst (queryRaw tx (setVt_sql queueName msgId vtOffset) (db w)) = Inr rows \<longrightarrow>
      (rows = [r] \<longrightarrow> fst (setVt tx queueName msgId vtOffset w) = Inr (JObj r))
    \<and> (isl (fst (setVt tx queueName msgId vtOffset w)) \<longleftrightarrow> rows = [])
    \<and> (rows = [] \<longrightarrow> fst (setVt tx queueName msgId vtOffset w)
          = Inl (JsError ''Error'' ''No result returned from pgmq.set_vt'')))
 \<and> (fst (queryRaw tx (setVt_sql queueName msgId vtOffset) (db w)) = Inl e \<longrightarrow>
      fst (setVt tx queueName msgId vtOffset w) = Inl e)"
  by (simp add: send_def metrics_def setVt_def first_or_throw_fst dollar_queryRaw_fst new_Error_def
      split: list.splits)

text \<open>The three cases on the test doubles: one row, no row, a rejected call.\<close>

theorem single_row_or_generic_Error_witness:
  "fst (queryRaw (mockResolvedValue [row0]) (send_sql ''q1'' task0 None) (db world0)) = Inr [row0]
   \<and> fst (send (mockResolvedValue [row0]) ''q1'' task0 None world0) = Inr (JNum (Finite 123))
   \<and> fst (metrics (mockResolvedValue [row0]) ''q1'' world0) = Inr (JObj row0)
   \<and> fst (setVt (mockResolvedValue [row0]) ''q1'' (Finite 1) (Finite 30) world0) = Inr (JObj row0)
   \<and> fst (queryRaw (mockResolvedValue []) (send_sql ''q1'' task0 None) (db world0)) = Inr []
   \<and> fst (send (mockResolvedValue []) ''q1'' task0 None world0)
       = Inl (JsError ''Error'' ''No result returned from pgmq.send'')
   \<and> fst (metrics (mockResolvedValue []) ''q1'' world0)
       = Inl (JsError ''Error'' ''No result returned from pgmq.metrics'')
   \<and> fst (setVt (mockResolvedValue []) ''q1'' (Finite 1) (Finite 30) world0)
       = Inl (JsError ''Error'' ''No result returned from pgmq.set_vt'')
   \<and> fst (send (mockRejectedValue (JsError ''EngineError'' ''Invalid queue name'')) ''q1'' task0 None world0)
       = Inl (JsError ''EngineError'' ''Invalid queue name'')"
  using single_row_or_generic_Error [where tx = "mockResolvedValue [row0]" and w = world0
      and rows = "[row0]" and r = row0 and queueName = "''q1''" and msg = task0 and delay = None
      and msgId = "Finite 1" and vtOffset = "Finite 30"]
    single_row_or_generic_Error [where tx = "mockResolvedValue []" and w = world0
      and rows = "[]" and queueName = "''q1''" and msg = task0 and delay = None
      and msgId = "Finite 1" and vtOffset = "Finite 30"]
    single_row_or_generic_Error [where tx = "mockRejectedValue (JsError ''EngineError'' ''Invalid queue name'')"
      and w = world0 and e = "JsError ''EngineError'' ''Invalid queue name''"
      and queueName = "''q1''" and msg = task0 and delay = None]
  by (simp add: mockResolvedValue_def mockRejectedValue_def row0_def getprop_def)

text \<open>
  Claim C10. \<^verbatim>\<open>deleteMessage\<close>, \<^verbatim>\<open>purgeQueue\<close>, \<^verbatim>\<open>archive\<close> and
  \<^verbatim>\<open>dropQueue\<close> raise an error when the engine answers with zero rows, and return the
  value of the first row when it answers with one row or more, as \<^verbatim>\<open>send\<close>,
  \<^verbatim>\<open>setVt\<close> and \<^verbatim>\<open>metrics\<close> do: no single-row function returns
  \<^verbatim>\<open>undefined\<close> for want of a row.
\<close>

theorem single_row_operations_total:
  "(fst (queryRaw tx (deleteMessage_sql queueName msgId) (db w)) = Inr [] \<longrightarrow>
      fst (deleteMessage tx queueName msgId w) = Inl (new_Error ''No result returned from pgmq.delete''))
 \<and> (fst (queryRaw tx (deleteMessage_sql queueName msgId) (db w)) = Inr (r # rs) \<longrightarrow>
      fst (deleteMessage tx queueName msgId w) = Inr (getprop r ''delete''))
 \<and> (fst (queryRaw tx (purgeQueue_sql queueName) (db w)) = Inr [] \<longrightarrow>
      fst (purgeQueue tx queueName w) = Inl (new_Error ''No result returned from pgmq.purge_queue''))
 \<and> (fst (queryRaw tx (purgeQueue_sql queueName) (db w)) = Inr (r # rs) \<longrightarrow>
      fst (purgeQueue tx queueName w) = Inr (getprop r ''purge_queue''))
 \<and> (fst (queryRaw tx (archive_sql queueName msgId) (db w)) = Inr [] \<longrightarrow>
      fst (archive tx queueName msgId w) = Inl (new_Error ''No result returned from pgmq.archive''))
 \<and> (fst (queryRaw tx (archive_sql queueName msgId) (db w)) = Inr (r # rs) \<longrightarrow>
      fst (archive tx queueName msgId w) = Inr (getprop r ''archive''))
 \<and> (fst (queryRaw tx (dropQueue_sql queueName) (db w)) = Inr [] \<longrightarrow>
      fst (dropQueue tx queueName w) = Inl (new_Error ''No result returned from pgmq.drop_queue''))
 \<and> (fst (queryRaw tx (dropQueue_sql queueName) (db w)) = Inr (r # rs) \<longrightarrow>
      fst (dropQueue tx queueName w) = Inr (getprop r ''drop_queue''))
 \<and> (fst (queryRaw tx (send_sql queueName msg delay) (db w)) = Inr [] \<longrightarrow>
      fst (send tx queueName msg delay w) = Inl (new_Error ''No result returned from pgmq.send''))
 \<and> (fst (queryRaw tx (send_sql queueName msg delay) (db w)) = Inr (r # rs) \<longrightarrow>
      fst (send tx queueName msg delay w) = Inr (getprop r ''send''))
 \<and> (fst (queryRaw tx (setVt_sql queueName msgId vtOffset) (db w)) = Inr [] \<longrightarrow>
      fst (setVt tx queueName msgId vtOffset w) = Inl (new_Error ''No result returned from pgmq.set_vt''))
 \<and> (fst (queryRaw tx (setVt_sql queueName msgId vtOffset) (db w)) = Inr (r # rs) \<longrightarrow>
      fst (setVt tx queueName msgId vtOffset w) = Inr (JObj r))
 \<and> (fst (queryRaw tx (metrics_sql queueName) (db w)) = Inr [] \<longrightarrow>
      fst (metrics tx queueName w) = Inl (new_Error ''No result returned from pgmq.metrics''))
 \<and> (fst (queryRaw tx (metrics_sql queueName) (db w)) = Inr (r # rs) \<longrightarrow>
      fst (metrics tx queueName w) = Inr (JObj r))"
  by (simp add: deleteMessage_def purgeQueue_def archive_def dropQueue_def send_def setVt_def
      metrics_def first_or_throw_fst dollar_queryRaw_fst)

text \<open>Zero rows and two rows on the test doubles.\<close>

theorem single_row_operations_total_witness:
  "fst (queryRaw (mockResolvedValue []) (deleteMessage_sql ''q1'' (Finite 1)) (db world0)) = Inr []
   \<and> fst (deleteMessage (mockResolvedValue []) ''q1'' (Finite 1) world0)
       = Inl (new_Error ''No result returned from pgmq.delete'')
   \<and> fst (purgeQueue (mockResolvedValue []) ''q1'' world0)
       = Inl (new_Error ''No result returned from pgmq.purge_queue'')
   \<and> fst (archive (mockResolvedValue []) ''q1'' (Finite 1) world0)
       = Inl (new_Error ''No result returned from pgmq.archive'')
   \<and> fst (dropQueue (mockResolvedValue []) ''q1'' world0)
       = Inl (new_Error ''No result returned from pgmq.drop_queue'')
   \<and> fst (queryRaw (mockResolvedValue [row0, row0]) (deleteMessage_sql ''q1'' (Finite 1)) (db world0))
       = Inr [row0, row0]
   \<and> fst (deleteMessage (mockResolvedValue [row0, row0]) ''q1'' (Finite 1) world0) = Inr (JBool True)
   \<and> fst (purgeQueue (mockResolvedValue [row0, row0]) ''q1'' world0) = Inr (JNum (Finite 5))
   \<and> fst (archive (mockResolvedValue [row0, row0]) ''q1'' (Finite 1) world0) = Inr (JBool True)
   \<and> fst (dropQueue (mockResolvedValue [row0, row0]) ''q1'' world0) = Inr (JBool True)"
  using single_row_operations_total [where tx = "mockResolvedValue []" and w = world0
      and queueName = "''q1''" and msgId = "Finite 1" and msg = task0 and delay = None
      and vtOffset = "Finite 30"]
    single_row_operations_total [where tx = "mockResolvedValue [row0, row0]" and w = world0
      and queueName = "''q1''" and msgId = "Finite 1" and r = row0 and rs = "[row0]"
      and msg = task0 and delay = None and vtOffset = "Finite 30"]
  by (simp add: mockResolvedValue_def row0_def getprop_def)

subsection \<open>Batches and polling\<close>

text \<open>
  Claim C4. For the empty payload list, given that the engine answers with zero rows,
  \<^verbatim>\<open>sendBatch\<close> returns the empty id list and raises nothing.
\<close>

theorem sendBatch_empty_is_empty:
  assumes "fst (queryRaw tx (sendBatch_sql queueName [] delay) (db w)) = Inr []"
  shows "fst (sendBatch tx queueName [] delay w) = Inr (JArr [])"
  using assms by (simp add: sendBatch_def all_rows_fst dollar_queryRaw_fst)

text \<open>The test double that resolves to no rows, as in the unit test for empty batches.\<close>

theorem sendBatch_empty_is_empty_witness:
  "fst (queryRaw (mockResolvedValue []) (sendBatch_sql ''q1'' [] None) (db world0)) = Inr []
   \<and> fst (sendBatch (mockResolvedValue []) ''q1'' [] None world0) = Inr (JArr [])"
  using sendBatch_empty_is_empty [where tx = "mockResolvedValue []" and w = world0
      and queueName = "''q1''" and delay = None]
  by (simp add: mockResolvedValue_def)

text \<open>
  Claim C6. Every invocation of \<^verbatim>\<open>readWithPoll\<close>, with any of its optional arguments
  given or left out, makes exactly one round trip, to the primitive \<^verbatim>\<open>read_with_poll\<close>,
  with the positional arguments queue, visibility window, limit, maximal wait in seconds,
  poll interval in milliseconds, filter. An argument the caller gives is sent as it is; one
  left out is sent as its default (1, 5, 100, the empty filter). The outcome is the engine's
  outcome of that one call: the rows it answers, or its failure. The client has no wait
  loop and no timeout of its own.
\<close>

theorem readWithPoll_one_verbatim_call:
  "snd (readWithPoll tx queueName vt qty maxPollSeconds pollIntervalMs conditional w)
     = \<lparr>db = snd (queryRaw tx
                  (readWithPoll_sql queueName vt (dflt (Finite 1) qty) (dflt (Finite 5) maxPollSeconds)
                     (dflt (Finite 100) pollIntervalMs) (dflt [] conditional)) (db w)),
        calls = calls w @
          [(QueryRaw,
            readWithPoll_sql queueName vt (dflt (Finite 1) qty) (dflt (Finite 5) maxPollSeconds)
              (dflt (Finite 100) pollIntervalMs) (dflt [] conditional))]\<rparr>
   \<and> fst (readWithPoll tx queueName vt qty maxPollSeconds pollIntervalMs conditional w)
     = map_sum id (\<lambda>result. JArr (map JObj result))
         (fst (queryRaw tx
                (readWithPoll_sql queueName vt (dflt (Finite 1) qty) (dflt (Finite 5) maxPollSeconds)
                   (dflt (Finite 100) pollIntervalMs) (dflt [] conditional)) (db w)))
   \<and> sql_text (readWithPoll_sql queueName vt (dflt (Finite 1) qty) (dflt (Finite 5) maxPollSeconds)
                 (dflt (Finite 100) pollIntervalMs) (dflt [] conditional))
     = ''SELECT * FROM pgmq.read_with_poll(?, ?::integer, ?::integer, ?::integer, ?::integer, ?)''
   \<and> sql_params (readWithPoll_sql queueName vt (dflt (Finite 1) qty) (dflt (Finite 5) maxPollSeconds)
                   (dflt (Finite 100) pollIntervalMs) (dflt [] conditional))
     = [JStr queueName, JNum vt, JNum (dflt (Finite 1) qty), JNum (dflt (Finite 5) maxPollSeconds),
        JNum (dflt (Finite 100) pollIntervalMs), JObj (dflt [] conditional)]
   \<and> dflt d (Some given) = given
   \<and> dflt d None = d
   \<and> calls (snd (readWithPoll tx queueName vt (Some qty') (Some maxPollSeconds') (Some pollIntervalMs')
                   (Some conditional') w))
     = calls w @
         [(QueryRaw, readWithPoll_sql queueName vt qty' maxPollSeconds' pollIntervalMs' conditional')]
   \<and> calls (snd (readWithPoll tx queueName vt None None None None w))
     = calls w @ [(QueryRaw, readWithPoll_sql queueName vt (Finite 1) (Finite 5) (Finite 100) [])]
   \<and> sql_text (readWithPoll_sql queueName vt qty' maxPollSeconds' pollIntervalMs' conditional')
     = ''SELECT * FROM pgmq.read_with_poll(?, ?::integer, ?::integer, ?::integer, ?::integer, ?)''
   \<and> sql_params (readWithPoll_sql queueName vt qty' maxPollSeconds' pollIntervalMs' conditional')
     = [JStr queueName, JNum vt, JNum qty', JNum maxPollSeconds', JNum pollIntervalMs',
        JObj conditional']
   \<and> fst (readWithPoll tx queueName vt (Some qty') (Some maxPollSeconds') (Some pollIntervalMs')
            (Some conditional') w)
     = map_sum id (\<lambda>result. JArr (map JObj result))
         (fst (queryRaw tx
                (readWithPoll_sql queueName vt qty' maxPollSeconds' pollIntervalMs' conditional')
                (db w)))"
proof (intro conjI)
  show "dflt d (Some given) = given" and "dflt d None = d"
    by (simp_all add: dflt_def)
  show "snd (readWithPoll tx queueName vt qty maxPollSeconds pollIntervalMs conditional w)
     = \<lparr>db = snd (queryRaw tx
                  (readWithPoll_sql queueName vt (dflt (Finite 1) qty) (dflt (Finite 5) maxPollSeconds)
                     (dflt (Finite 100) pollIntervalMs) (dflt [] conditional)) (db w)),
        calls = calls w @
          [(QueryRaw,
            readWithPoll_sql queueName vt (dflt (Finite 1) qty) (dflt (Finite 5) maxPollSeconds)
              (dflt (Finite 100) pollIntervalMs) (dflt [] conditional))]\<rparr>"
    by (simp add: readWithPoll_def all_rows_snd dollar_queryRaw_snd)
  show "fst (readWithPoll tx queueName vt qty maxPollSeconds pollIntervalMs conditional w)
     = map_sum id (\<lambda>result. JArr (map JObj result))
         (fst (queryRaw tx
                (readWithPoll_sql queueName vt (dflt (Finite 1) qty) (dflt (Finite 5) maxPollSeconds)
                   (dflt (Finite 100) pollIntervalMs) (dflt [] conditional)) (db w)))"
    by (simp add: readWithPoll_def all_rows_fst dollar_queryRaw_fst)
qed (simp_all add: readWithPoll_def shape_snd all_rows_fst dollar_queryRaw_fst readWithPoll_sql_def
       dflt_def)

subsection \<open>Deleting twice\<close>

text \<open>
  Claim C7. Against the reference engine, on an existing queue: \<^verbatim>\<open>deleteMessage\<close> of an
  id that is not in the queue returns false and is not an error; \<^verbatim>\<open>deleteMessage\<close> of
  an id that is in the queue returns true, and a second call on the same id returns false.
  On any handle, the boolean of the engine's single row is returned as it is.
\<close>

theorem deleteMessage_true_then_false:
  assumes "db w queueName = Some ids"
  shows "(msgId \<notin> set ids \<longrightarrow> fst (deleteMessage engine_tx queueName msgId w) = Inr (JBool False))
       \<and> (msgId \<in> set ids \<longrightarrow>
            fst (deleteMessage engine_tx queueName msgId w) = Inr (JBool True)
          \<and> fst (deleteMessage engine_tx queueName msgId
                   (snd (deleteMessage engine_tx queueName msgId w))) = Inr (JBool False))
       \<and> (fst (queryRaw tx (deleteMessage_sql queueName msgId) (db w)) = Inr [[(''delete'', JBool b)]]
            \<longrightarrow> fst (deleteMessage tx queueName msgId w) = Inr (JBool b))"
  using assms
  by (simp add: deleteMessage_def first_or_throw_fst first_or_throw_snd dollar_queryRaw_fst
      dollar_queryRaw_def engine_delete getprop_def split: prod.splits)

text \<open>Queue \<^verbatim>\<open>q1\<close> holding messages 1 and 2: message 1 twice, and the absent message 7.\<close>

theorem deleteMessage_true_then_false_witness:
  "db world_q1 ''q1'' = Some [Finite 1, Finite 2]
   \<and> fst (deleteMessage engine_tx ''q1'' (Finite 1) world_q1) = Inr (JBool True)
   \<and> fst (deleteMessage engine_tx ''q1'' (Finite 1)
            (snd (deleteMessage engine_tx ''q1'' (Finite 1) world_q1))) = Inr (JBool False)
   \<and> fst (deleteMessage engine_tx ''q1'' (Finite 7) world_q1) = Inr (JBool False)"
  using deleteMessage_true_then_false [where w = world_q1 and queueName = "''q1''"
      and ids = "[Finite 1, Finite 2]" and msgId = "Finite 1" and tx = engine_tx and b = True]
    deleteMessage_true_then_false [where w = world_q1 and queueName = "''q1''"
      and ids = "[Finite 1, Finite 2]" and msgId = "Finite 7" and tx = engine_tx and b = False]
  by (simp add: world_q1_def)

subsection \<open>Delay\<close>

text \<open>
  Claim C9. For \<^verbatim>\<open>send\<close> and \<^verbatim>\<open>sendBatch\<close>, a falsy delay (\<^verbatim>\<open>0\<close>, \<^verbatim>\<open>NaN\<close>)
  gives the query of an omitted delay, with the queue and the payload as its only
  parameters; the whole call, on any handle and in any state, is the call without delay.
\<close>

theorem falsy_delay_same_as_omitted:
  assumes "\<not> truthy (delay_val delay)"
  shows "send_sql queueName msg delay = send_sql queueName msg None
       \<and> sendBatch_sql queueName msgs delay = sendBatch_sql queueName msgs None
       \<and> sql_params (send_sql queueName msg delay) = [JStr queueName, JObj msg]
       \<and> sql_params (sendBatch_sql queueName msgs delay) = [JStr queueName, JArr (map JObj msgs)]
       \<and> send tx queueName msg delay w = send tx queueName msg None w
       \<and> sendBatch tx queueName msgs delay w = sendBatch tx queueName msgs None w"
  using assms by (simp add: send_def sendBatch_def send_sql_def sendBatch_sql_def delaySql_def)

text \<open>The delays \<^verbatim>\<open>0\<close> and \<^verbatim>\<open>NaN\<close>.\<close>

theorem falsy_delay_same_as_omitted_witness:
  "\<not> truthy (delay_val (Some (DelayNumber (Finite 0))))
   \<and> \<not> truthy (delay_val (Some (DelayNumber NaN)))
   \<and> send_sql ''q1'' task0 (Some (DelayNumber (Finite 0))) = send_sql ''q1'' task0 None
   \<and> sql_params (send_sql ''q1'' task0 (Some (DelayNumber (Finite 0)))) = [JStr ''q1'', JObj task0]
   \<and> send (mockResolvedValue [row0]) ''q1'' task0 (Some (DelayNumber (Finite 0))) world0
       = send (mockResolvedValue [row0]) ''q1'' task0 None world0
   \<and> sendBatch (mockResolvedValue [row0]) ''q1'' [task0] (Some (DelayNumber NaN)) world0
       = sendBatch (mockResolvedValue [row0]) ''q1'' [task0] None world0"
proof -
  have zero: "\<not> truthy (delay_val (Some (DelayNumber (Finite 0))))"
    by simp
  have nan: "\<not> truthy (delay_val (Some (DelayNumber NaN)))"
    by simp
  note at_zero = falsy_delay_same_as_omitted [OF zero, where queueName = "''q1''" and msg = task0
      and msgs = "[task0]" and tx = "mockResolvedValue [row0]" and w = world0]
  note at_nan = falsy_delay_same_as_omitted [OF nan, where queueName = "''q1''" and msg = task0
      and msgs = "[task0]" and tx = "mockResolvedValue [row0]" and w = world0]
  from zero nan at_zero at_nan show ?thesis
    by blast
qed

end
